theory Spec2Isabelle
  imports Main "HOL-Library.Word"
begin

section \<open>Strings and numbers of the host language\<close>

text \<open>
  A JavaScript string is a sequence of 16-bit code units. Literals of the module are
  written with \<open>js\<close>, which embeds an ASCII literal code unit by code unit.

  JavaScript numbers are double-precision floats. The model writes the integers among
  them as \<open>int\<close>. On the safe integers, those of magnitude at most \<open>2 ^ 53 - 1\<close>, the
  operations of the module agree with the integer ones: \<open>Number\<close> of a digit string is
  its value, \<open>+\<close> is the sum when the sum is safe too, and \<open>String\<close> prints the decimal
  numeral. Beyond them the engine rounds and prints an exponent, and the integer
  functions below no longer say what it does, so every statement about the digits of
  a number assumes \<open>safe_integer\<close> of the numbers it reads and writes. The value
  \<open>NaN\<close> and the non-numbers \<open>null\<close> and \<open>undefined\<close> are separate constructors where
  the code can meet them.
\<close>

type_synonym code_unit = "16 word"
type_synonym jsstring = "code_unit list"

definition js :: "string \<Rightarrow> jsstring" where
  "js s = map (\<lambda>c. of_nat (of_char c)) s"

text \<open>
  The character classes of the pattern in \<open>scaleDiceFormula\<close>. \<open>\s\<close> is the
  language's white space together with its line terminators; \<open>\d\<close> is an ASCII digit;
  the letter \<open>d\<close> is matched ignoring case (flag \<open>i\<close>), so by \<open>d\<close> and \<open>D\<close> only;
  \<open>.\<close> (no flag \<open>s\<close>) is any code unit that is not a line terminator.
\<close>

definition is_line_terminator :: "code_unit \<Rightarrow> bool" where
  "is_line_terminator c \<longleftrightarrow> unat c \<in> {0x0A, 0x0D, 0x2028, 0x2029}"

definition is_space :: "code_unit \<Rightarrow> bool" where
  "is_space c \<longleftrightarrow>
     is_line_terminator c \<or>
     unat c \<in> {0x09, 0x0B, 0x0C, 0x20, 0xA0, 0x1680, 0x202F, 0x205F, 0x3000, 0xFEFF} \<or>
     (0x2000 \<le> unat c \<and> unat c \<le> 0x200A)"

definition is_digit :: "code_unit \<Rightarrow> bool" where
  "is_digit c \<longleftrightarrow> 0x30 \<le> unat c \<and> unat c \<le> 0x39"

definition is_d :: "code_unit \<Rightarrow> bool" where
  "is_d c \<longleftrightarrow> unat c = 0x64 \<or> unat c = 0x44"

text \<open>
  \<open>Number(m[2])\<close> on a string of decimal digits (leading zeros allowed): the value of
  the digits, which is what the engine returns while that value is a safe integer.
\<close>

definition Number_of_digits :: "jsstring \<Rightarrow> int" where
  "Number_of_digits ds = foldl (\<lambda>n c. 10 * n + (int (unat c) - 0x30)) 0 ds"

text \<open>
  \<open>String(n)\<close> on an integer: decimal digits, a minus sign when negative. The engine
  prints this numeral for every safe integer.
\<close>

fun digits_of_nat :: "nat \<Rightarrow> jsstring" where
  "digits_of_nat n =
     (if n < 10 then [of_nat (0x30 + n)]
      else digits_of_nat (n div 10) @ [of_nat (0x30 + n mod 10)])"

declare digits_of_nat.simps [simp del]

definition String_of_int :: "int \<Rightarrow> jsstring" where
  "String_of_int n =
     (if n < 0 then js ''-'' @ digits_of_nat (nat (- n)) else digits_of_nat (nat n))"

text \<open>\<open>Number.isSafeInteger\<close> on an integer.\<close>

definition safe_integer :: "int \<Rightarrow> bool" where
  "safe_integer n \<longleftrightarrow> \<bar>n\<bar> \<le> 2 ^ 53 - 1"

section \<open>\<open>Module.scaleDiceFormula\<close>\<close>

text \<open>
  The values that reach the parameter \<open>add\<close>: a number (an integer, or \<open>NaN\<close> when the
  level it was computed from is not numeric), \<open>null\<close>, \<open>undefined\<close>, a boolean or a
  string.
\<close>

datatype increment = Num int | NaN | Null | Undefined | Bool bool | Str jsstring

text \<open>\<open>!add || add === 0\<close> is the negation of the truthiness of \<open>add\<close>.\<close>

fun truthy :: "increment \<Rightarrow> bool" where
  "truthy (Num n) = (n \<noteq> 0)"
| "truthy NaN = False"
| "truthy Null = False"
| "truthy Undefined = False"
| "truthy (Bool b) = b"
| "truthy (Str s) = (s \<noteq> [])"

text \<open>\<open>count + add\<close>, then its conversion to a string in the template literal.\<close>

fun plus_count :: "int \<Rightarrow> increment \<Rightarrow> jsstring" where
  "plus_count count (Num n) = String_of_int (count + n)"
| "plus_count count (Bool b) = String_of_int (count + (if b then 1 else 0))"
| "plus_count count (Str s) = String_of_int count @ s"
| "plus_count count Null = String_of_int count"
| "plus_count count NaN = js ''NaN''"
| "plus_count count Undefined = js ''NaN''"

text \<open>\<open>${add}\<close> in the fallback.\<close>

fun String_of_increment :: "increment \<Rightarrow> jsstring" where
  "String_of_increment (Num n) = String_of_int n"
| "String_of_increment (Bool b) = (if b then js ''true'' else js ''false'')"
| "String_of_increment (Str s) = s"
| "String_of_increment Null = js ''null''"
| "String_of_increment NaN = js ''NaN''"
| "String_of_increment Undefined = js ''undefined''"

text \<open>
  The prefix \<open>^(\s*)(\d+)\s*d\s*(\d+)\<close> of the pattern. Every quantifier is greedy and
  is followed by a code unit outside its own class, so the only way to match is to take
  each run of white space and each run of digits whole. The result is the leading white
  space, the digits of the count, the digits of the die size, and what follows them.
\<close>

definition dice_term :: "jsstring \<Rightarrow> (jsstring \<times> jsstring \<times> jsstring \<times> jsstring) option" where
  "dice_term s =
     (let leading = takeWhile is_space s;
          s1 = dropWhile is_space s;
          count = takeWhile is_digit s1;
          s2 = dropWhile is_space (dropWhile is_digit s1)
      in if count = [] then None
         else case s2 of
           [] \<Rightarrow> None
         | c # s3 \<Rightarrow>
             if \<not> is_d c then None
             else let s4 = dropWhile is_space s3;
                      sides = takeWhile is_digit s4;
                      rest = dropWhile is_digit s4
                  in if sides = [] then None else Some (leading, count, sides, rest))"

text \<open>
  The whole pattern \<open>/^(\s*)(\d+)\s*d\s*(\d+)(.*)$/i\<close>: after the die size, \<open>(.*)$\<close> has
  to reach the end of the string without crossing a line terminator. Giving digits of
  the die size back to \<open>.*\<close> does not help it across one, so the match fails as a whole.
\<close>

definition match_dice :: "jsstring \<Rightarrow> (jsstring \<times> jsstring \<times> jsstring \<times> jsstring) option" where
  "match_dice s =
     (case dice_term s of
        None \<Rightarrow> None
      | Some (leading, count, sides, rest) \<Rightarrow>
          if list_ex is_line_terminator rest then None
          else Some (leading, count, sides, rest))"

definition scaleDiceFormula :: "jsstring \<Rightarrow> increment \<Rightarrow> jsstring" where
  "scaleDiceFormula formula add =
     (if \<not> truthy add then formula
      else case match_dice formula of
        Some (leading, count, sides, rest) \<Rightarrow>
          leading @ plus_count (Number_of_digits count) add @ js ''d'' @ sides @ rest
      | None \<Rightarrow> formula @ js '' + '' @ String_of_increment add)"


section \<open>Items, their roll-group configuration and the host\<close>

text \<open>
  A damage part is the pair \<open>[formula, type]\<close>. The configuration is the object stored
  under \<open>item.flags.rollgroups.config\<close>; an absent property is \<open>None\<close>. The entries of a
  group's \<open>parts\<close> list are values of the host (\<open>'v\<close>): the module reads them through
  \<open>Number(n)\<close> in \<open>constructParts\<close> and as a property key in \<open>createDamageButtons\<close>, so
  both conversions are parameters of the model.
\<close>

type_synonym damage_part = "jsstring \<times> jsstring"

record 'v rollgroup =
  label :: "jsstring option"
  parts :: "'v list option"

record 'v rollgroups_config =
  groups :: "'v rollgroup list option"
  saves :: "jsstring list option"

record 'v item =
  uuid :: jsstring
  actor_uuid :: "jsstring option"
  config :: "'v rollgroups_config option"
  damage_parts :: "damage_part list option"
  hasSave :: bool
  save_ability :: "jsstring option"
  getSaveDC :: "int option"
  save_dc :: "int option"
  has_rollDamage :: bool

text \<open>\<open>CONFIG[Module.system.toUpperCase()]\<close>: the own keys of the damage and healing
  types, and the abilities, each own key with its label.\<close>

record host_config =
  damageTypes :: "jsstring list option"
  healingTypes :: "jsstring list option"
  abilities :: "(jsstring \<times> jsstring) list option"

text \<open>
  An exception raised by the engine, where the code can raise one.
\<close>

datatype exception = TypeError string

text \<open>
  \<open>key in table\<close> for a table that is a plain object: the key is one of the table's own
  keys, or one of the names every plain object inherits from \<open>Object.prototype\<close>.
\<close>

definition Object_prototype_names :: "jsstring list" where
  "Object_prototype_names =
     map js [''constructor'', ''hasOwnProperty'', ''isPrototypeOf'', ''propertyIsEnumerable'',
             ''toLocaleString'', ''toString'', ''valueOf'', ''__proto__'',
             ''__defineGetter__'', ''__defineSetter__'', ''__lookupGetter__'',
             ''__lookupSetter__'']"

definition key_in :: "jsstring \<Rightarrow> jsstring list \<Rightarrow> bool" where
  "key_in k own \<longleftrightarrow> k \<in> set own \<or> k \<in> set Object_prototype_names"

text \<open>\<open>ui.notifications.error(game.i18n.localize(key))\<close>, recorded by its key.\<close>

datatype notification = Error_notification string

text \<open>\<open>item.flags?.[Module.ID]?.config?.groups\<close>\<close>

definition config_groups :: "'v item \<Rightarrow> 'v rollgroup list option" where
  "config_groups item = (case config item of None \<Rightarrow> None | Some c \<Rightarrow> groups c)"

text \<open>\<open>xs ?? []\<close>\<close>

definition or_empty :: "'a list option \<Rightarrow> 'a list" where
  "or_empty xs = (case xs of None \<Rightarrow> [] | Some ys \<Rightarrow> ys)"

text \<open>
  \<open>groups?.[idx]\<close>: the element at an index inside the array, otherwise \<open>undefined\<close>.
  A group index that is no integer selects no parts list either, like an integer
  outside the array.
\<close>

definition group_at :: "'v item \<Rightarrow> int \<Rightarrow> 'v rollgroup option" where
  "group_at item idx =
     (case config_groups item of
        None \<Rightarrow> None
      | Some gs \<Rightarrow> if 0 \<le> idx \<and> idx < int (length gs) then Some (gs ! nat idx) else None)"

subsection \<open>\<open>Module.constructParts\<close>\<close>

text \<open>
  The result is the array of selected parts or \<open>false\<close>, together with the
  notifications shown. \<open>Number\<close> gives the integer a stored value converts to, and
  \<open>None\<close> when it converts to no integer (\<open>NaN\<close>, a fraction): such a number is equal
  to no array position in \<open>indices.has(i)\<close>.
\<close>

datatype parts_result = Parts_false | Parts "damage_part list"

text \<open>\<open>item.flags?.[Module.ID]?.config?.groups?.[idx]?.parts ?? []\<close>\<close>

definition group_indices :: "'v item \<Rightarrow> int \<Rightarrow> 'v list" where
  "group_indices item idx = (case group_at item idx of None \<Rightarrow> [] | Some g \<Rightarrow> or_empty (parts g))"

definition constructParts ::
  "('v \<Rightarrow> int option) \<Rightarrow> 'v item \<Rightarrow> int \<Rightarrow> parts_result \<times> notification list" where
  "constructParts Number item idx =
     (let raw = group_indices item idx;
          indices = set (map Number raw);
          ps = or_empty (damage_parts item);
          group = foldl (\<lambda>acc (part, i). if Some (int i) \<in> indices then acc @ [part] else acc)
                    [] (zip ps [0..<length ps])
      in if group = [] then (Parts_false, [Error_notification ''ROLLGROUPS.RollGroupEmpty''])
         else (Parts group, []))"

text \<open>
  What the specification asks of the selection: the entries of the damage parts whose
  array position is the number of some listed value, in the order of the array.
\<close>

definition selected_parts :: "('v \<Rightarrow> int option) \<Rightarrow> 'v list \<Rightarrow> 'a list \<Rightarrow> 'a list" where
  "selected_parts Number raw ps =
     map (\<lambda>i. ps ! i) (filter (\<lambda>i. \<exists>v \<in> set raw. Number v = Some (int i)) [0..<length ps])"

subsection \<open>\<open>Module.rollDamageGroup\<close>\<close>

text \<open>
  The destructured parameter, a property left out being \<open>None\<close>, and the object
  handed to \<open>rollDamage\<close> once the defaults are in. The result is what the host's
  \<open>rollDamage\<close> returns for the item or for its clone with the selected parts,
  \<open>undefined\<close> when the item has no such method (the optional call), or \<open>null\<close>.
  The clone made by \<open>constructClone\<close> is an item of the same class with
  \<open>system.damage.parts\<close> replaced, so it has the method when the item has it.
\<close>

record ('e, 'o) roll_config =
  rollgroup :: "int option"
  critical :: "bool option"
  event :: "'e option"
  spellLevel :: "int option"
  versatile :: "bool option"
  options :: "(string \<times> 'o) list option"

record ('e, 'o) damage_roll_args =
  arg_critical :: bool
  arg_event :: "'e option"
  arg_spellLevel :: "int option"
  arg_versatile :: bool
  arg_options :: "(string \<times> 'o) list"

datatype ('e, 'o) roll_result =
    Roll_of_item "('e, 'o) damage_roll_args"
  | Roll_of_clone "damage_part list" "('e, 'o) damage_roll_args"
  | Result_undefined
  | Result_null

definition roll_args :: "('e, 'o) roll_config \<Rightarrow> ('e, 'o) damage_roll_args" where
  "roll_args c =
     \<lparr>arg_critical = (case critical c of None \<Rightarrow> False | Some b \<Rightarrow> b),
      arg_event = event c,
      arg_spellLevel = spellLevel c,
      arg_versatile = (case versatile c of None \<Rightarrow> False | Some b \<Rightarrow> b),
      arg_options = or_empty (options c)\<rparr>"

definition rollDamageGroup ::
  "('v \<Rightarrow> int option) \<Rightarrow> 'v item \<Rightarrow> ('e, 'o) roll_config \<Rightarrow>
     ('e, 'o) roll_result \<times> notification list" where
  "rollDamageGroup Number this c =
     (let rg = (case rollgroup c of None \<Rightarrow> 0 | Some n \<Rightarrow> n);
          group = or_empty (config_groups this)
      in if group = [] then
           (if has_rollDamage this then Roll_of_item (roll_args c) else Result_undefined, [])
         else
           let indices = (case group_at this rg of None \<Rightarrow> None | Some g \<Rightarrow> parts g)
           in if or_empty indices = [] then
                (Result_null, [Error_notification ''ROLLGROUPS.RollGroupEmpty''])
              else
                case constructParts Number this rg of
                  (Parts_false, shown) \<Rightarrow> (Result_null, shown)
                | (Parts ps, shown) \<Rightarrow>
                    (if has_rollDamage this then Roll_of_clone ps (roll_args c)
                     else Result_undefined, shown))"

subsection \<open>\<open>Module.createDamageButtons\<close>\<close>

text \<open>
  The function returns the \<open>innerHTML\<close> of a \<open>DIV\<close> to which it appended one
  \<open>BUTTON\<close> per group, or \<open>null\<close>. The model returns the list of these buttons, each
  with the attributes and the content the code gives it; their serialisation is the
  host's. \<open>index_of t\<close> is the array position that the stored value \<open>t\<close> names as a
  property key in \<open>validParts[t]\<close>, if it names one.
\<close>

datatype button_kind = Damage | Healing | Mixed

record damage_button =
  data_group :: nat
  data_item_uuid :: jsstring
  data_actor_uuid :: jsstring
  kind :: button_kind
  labelText :: jsstring

text \<open>\<open>t && (t in (table ?? {}))\<close>\<close>

definition type_in :: "jsstring list option \<Rightarrow> jsstring option \<Rightarrow> bool" where
  "type_in table t = (case t of None \<Rightarrow> False | Some ty \<Rightarrow> ty \<noteq> [] \<and> key_in ty (or_empty table))"

definition damage_button_of ::
  "('v \<Rightarrow> nat option) \<Rightarrow> host_config option \<Rightarrow> 'v item \<Rightarrow> damage_part list \<Rightarrow>
     'v rollgroup \<Rightarrow> nat \<Rightarrow> damage_button" where
  "damage_button_of index_of CONFIG item validParts g idx =
     (let types = map (\<lambda>t. case index_of t of
                            None \<Rightarrow> None
                          | Some i \<Rightarrow> if i < length validParts then Some (snd (validParts ! i)) else None)
                    (or_empty (parts g));
          isDamage = list_all (type_in (case CONFIG of None \<Rightarrow> None | Some c \<Rightarrow> damageTypes c)) types;
          isHealing = list_all (type_in (case CONFIG of None \<Rightarrow> None | Some c \<Rightarrow> healingTypes c)) types
      in \<lparr>data_group = idx,
          data_item_uuid = uuid item,
          data_actor_uuid = (case actor_uuid item of None \<Rightarrow> [] | Some u \<Rightarrow> u),
          kind = (if isDamage then Damage else if isHealing then Healing else Mixed),
          labelText = (case label g of
                         None \<Rightarrow> []
                       | Some l \<Rightarrow> if l = [] then [] else js ''('' @ l @ js '')'')\<rparr>)"

definition createDamageButtons ::
  "('v \<Rightarrow> nat option) \<Rightarrow> host_config option \<Rightarrow> 'v item \<Rightarrow> damage_button list option" where
  "createDamageButtons index_of CONFIG item =
     (let validParts = filter (\<lambda>(f, t). f \<noteq> []) (or_empty (damage_parts item));
          hasGroups = ((case config_groups item of None \<Rightarrow> False | Some gs \<Rightarrow> length gs > 0)
                       \<and> length validParts > 1)
      in if \<not> hasGroups then None
         else let gs = or_empty (config_groups item)
              in Some (foldl (\<lambda>acc (g, idx).
                               acc @ [damage_button_of index_of CONFIG item validParts g idx])
                         [] (zip gs [0..<length gs])))"

subsection \<open>\<open>Module.createSaveButtons\<close>\<close>

text \<open>
  Again the buttons appended to the \<open>DIV\<close>, or \<open>null\<close>. Every button has the type
  \<open>button\<close> and the action \<open>save\<close>; its text is formatted by the host from the
  difficulty class and the label of the ability.

  The filter tests \<open>abi in (CONFIG[system]?.abilities ?? {})\<close>, so it looks into an empty
  object when the host has no abilities table. The loop then reads
  \<open>CONFIG[system].abilities[abi].label\<close> without that guard: it raises a \<open>TypeError\<close> when
  the table is missing, and finds the label \<open>undefined\<close> (\<open>None\<close>) when \<open>abi\<close> is an
  inherited name and no key of the table.
\<close>

record save_button =
  data_ability :: jsstring
  data_dc :: int
  ability_label :: "jsstring option"

definition createSaveButtons ::
  "host_config option \<Rightarrow> 'v item option \<Rightarrow> exception + save_button list option" where
  "createSaveButtons CONFIG item_opt =
     (case item_opt of
        None \<Rightarrow> Inr None
      | Some item \<Rightarrow>
          if \<not> hasSave item then Inr None
          else
            let table = (case CONFIG of None \<Rightarrow> None | Some c \<Rightarrow> abilities c);
                saves = filter (\<lambda>abi. Some abi \<noteq> save_ability item
                                      \<and> key_in abi (map fst (or_empty table)))
                          (or_empty (case config item of None \<Rightarrow> None | Some c \<Rightarrow> saves c))
            in if saves = [] then Inr None
               else
                 let dc = (case getSaveDC item of
                             Some n \<Rightarrow> n
                           | None \<Rightarrow> (case save_dc item of Some n \<Rightarrow> n | None \<Rightarrow> 10))
                 in case table of
                      None \<Rightarrow> Inl (TypeError ''Cannot read properties of undefined'')
                    | Some labels \<Rightarrow>
                        Inr (Some (foldl (\<lambda>acc abi.
                                           acc @ [\<lparr>data_ability = abi, data_dc = dc,
                                                   ability_label = map_of labels abi\<rparr>])
                                     [] saves)))"

subsection \<open>\<open>WeaponPicker._scaleCantripDamage\<close>\<close>






section \<open>The handler of \<open>renderChatMessage\<close>\<close>

text \<open>
  \<open>Module.createChatLogListeners(message, html)\<close>. The argument \<open>html\<close> is \<open>null\<close> or
  \<open>undefined\<close>, an element (given by the attributes of its descendants, in document
  order), or a jQuery collection wrapping one: an object that is truthy and has no
  method \<open>querySelectorAll\<close>, so that calling it raises a \<open>TypeError\<close>. The handler has
  no \<open>try\<close> block; an exception is the result \<open>Inl\<close>, which reaches the caller. A normal
  return lists the click listeners added, by the position of the element.
\<close>

type_synonym element = "(string \<times> jsstring) list"

datatype html_arg = Html_nullish | Html_element "element list" | Html_jquery "element list"

datatype click_listener = RollDamageFromChat | PickEquippedWeapon | RollSave

text \<open>\<open>[name^='prefix']\<close>, \<open>[name='value']\<close> and \<open>[name]\<close>\<close>

definition attr_starts :: "string \<Rightarrow> jsstring \<Rightarrow> element \<Rightarrow> bool" where
  "attr_starts name p e =
     (case map_of e name of None \<Rightarrow> False | Some v \<Rightarrow> p \<noteq> [] \<and> take (length p) v = p)"

definition attr_is :: "string \<Rightarrow> jsstring \<Rightarrow> element \<Rightarrow> bool" where
  "attr_is name x e = (map_of e name = Some x)"

definition attr_present :: "string \<Rightarrow> element \<Rightarrow> bool" where
  "attr_present name e = (map_of e name \<noteq> None)"

definition querySelectorAll :: "(element \<Rightarrow> bool) \<Rightarrow> element list \<Rightarrow> nat list" where
  "querySelectorAll sel es = filter (\<lambda>i. sel (es ! i)) [0..<length es]"

definition createChatLogListeners ::
  "html_arg \<Rightarrow> exception + (nat \<times> click_listener) list" where
  "createChatLogListeners html =
     (case html of
        Html_nullish \<Rightarrow> Inr []
      | Html_jquery es \<Rightarrow> Inl (TypeError ''html.querySelectorAll is not a function'')
      | Html_element es \<Rightarrow>
          Inr (map (\<lambda>n. (n, RollDamageFromChat))
                 (querySelectorAll (attr_starts ''data-action'' (js ''rollgroup-damage'')) es)
               @ map (\<lambda>n. (n, PickEquippedWeapon))
                 (querySelectorAll (attr_starts ''data-action'' (js ''rollgroup-bladecantrip'')) es)
               @ map (\<lambda>n. (n, RollSave))
                 (querySelectorAll (\<lambda>e. attr_is ''data-action'' (js ''save'') e
                                        \<and> attr_present ''data-dc'' e) es)))"

section \<open>Example data\<close>

text \<open>
  A weapon with three damage parts, the last with an empty type, and two roll groups:
  the first lists the given positions, the second has no list. It has a saving throw
  on constitution and extra saves configured, one of them unknown to the host.
\<close>

definition example_item :: "int list \<Rightarrow> int item" where
  "example_item listed =
     \<lparr>uuid = js ''Item.1'', actor_uuid = Some (js ''Actor.1''),
      config = Some \<lparr>groups = Some [\<lparr>label = Some (js ''Blade''), parts = Some listed\<rparr>,
                                     \<lparr>label = None, parts = None\<rparr>],
                      saves = Some [js ''dex'', js ''con'', js ''luck'', js ''str'']\<rparr>,
      damage_parts = Some [(js ''1d8'', js ''slashing''), (js ''2d6'', js ''fire''), (js ''2'', [])],
      hasSave = True, save_ability = Some (js ''con''), getSaveDC = None, save_dc = Some 15,
      has_rollDamage = True\<rparr>"

text \<open>
  The same weapon with two extra saves configured: a known ability, and a name
  that is no ability but that every plain object inherits.
\<close>

definition inherited_item :: "int item" where
  "inherited_item =
     (example_item [])\<lparr>config := Some \<lparr>groups = None,
                                           saves = Some [js ''dex'', js ''toString'']\<rparr>\<rparr>"

text \<open>The same weapon with no roll-group configuration at all.\<close>

definition plain_item :: "int item" where
  "plain_item = (example_item [])\<lparr>config := None\<rparr>"

definition example_host :: "host_config option" where
  "example_host =
     Some \<lparr>damageTypes = Some [js ''slashing'', js ''fire''],
           healingTypes = Some [js ''healing'', js ''temphp''],
           abilities = Some [(js ''str'', js ''Strength''), (js ''dex'', js ''Dexterity''),
                             (js ''con'', js ''Constitution'')]\<rparr>"


text \<open>A call of \<open>rollDamageGroup\<close> that leaves every property out.\<close>

definition all_defaults :: "(unit, unit) roll_config" where
  "all_defaults = \<lparr>rollgroup = None, critical = None, event = None, spellLevel = None,
     versatile = None, options = None\<rparr>"

section \<open>Properties of the dice-formula rewrite\<close>

subsection \<open>The character classes and the pattern\<close>

text \<open>The classes of the pattern are disjoint where the pattern needs them to be.\<close>

lemma digit_not_space: "is_digit c \<Longrightarrow> \<not> is_space c"
  by (auto simp: is_digit_def is_space_def is_line_terminator_def)

lemma d_not_space: "is_d c \<Longrightarrow> \<not> is_space c"
  by (auto simp: is_d_def is_space_def is_line_terminator_def)

lemma d_not_digit: "is_d c \<Longrightarrow> \<not> is_digit c"
  by (auto simp: is_d_def is_digit_def)

lemma line_terminator_not_digit: "is_line_terminator c \<Longrightarrow> \<not> is_digit c"
  by (auto simp: is_line_terminator_def is_digit_def)

lemma takeWhile_run:
  "list_all P xs \<Longrightarrow> (ys = [] \<or> \<not> P (hd ys)) \<Longrightarrow> takeWhile P (xs @ ys) = xs"
  by (induction xs) (auto simp: takeWhile_eq_Nil_iff neq_Nil_conv)

lemma dropWhile_run:
  "list_all P xs \<Longrightarrow> (ys = [] \<or> \<not> P (hd ys)) \<Longrightarrow> dropWhile P (xs @ ys) = ys"
  by (induction xs) (auto simp: dropWhile_eq_self_iff neq_Nil_conv)

lemma dice_term_complete:
  assumes l: "list_all is_space l" and N: "N \<noteq> []" "list_all is_digit N"
    and w1: "list_all is_space w1" and d: "is_d d" and w2: "list_all is_space w2"
    and M: "M \<noteq> []" "list_all is_digit M"
  shows "dice_term (l @ N @ w1 @ d # w2 @ M @ r) =
           Some (l, N, M @ takeWhile is_digit r, dropWhile is_digit r)"
proof -
  let ?s5 = "M @ r" and ?s3 = "w2 @ M @ r" and ?s2 = "d # w2 @ M @ r"
  from N obtain n N' where Ncons: "N = n # N'" "is_digit n" by (cases N) auto
  from M obtain m M' where Mcons: "M = m # M'" "is_digit m" by (cases M) auto
  have a: "takeWhile is_space (l @ N @ w1 @ ?s2) = l"
    using l Ncons by (intro takeWhile_run) (auto simp: digit_not_space)
  have b: "dropWhile is_space (l @ N @ w1 @ ?s2) = N @ w1 @ ?s2"
    using l Ncons by (intro dropWhile_run) (auto simp: digit_not_space)
  have nd: "w1 @ ?s2 = [] \<or> \<not> is_digit (hd (w1 @ ?s2))"
    using w1 d by (cases w1) (auto simp: d_not_digit digit_not_space)
  have c: "takeWhile is_digit (N @ w1 @ ?s2) = N"
    using N nd by (intro takeWhile_run) auto
  have e: "dropWhile is_digit (N @ w1 @ ?s2) = w1 @ ?s2"
    using N nd by (intro dropWhile_run) auto
  have f: "dropWhile is_space (w1 @ ?s2) = ?s2"
    using w1 d by (intro dropWhile_run) (auto simp: d_not_space)
  have g: "dropWhile is_space (w2 @ ?s5) = ?s5"
    using w2 Mcons by (intro dropWhile_run) (auto simp: digit_not_space)
  have h: "takeWhile is_digit (M @ r) = M @ takeWhile is_digit r"
    using M by (simp add: takeWhile_append2 list_all_iff)
  have i: "dropWhile is_digit (M @ r) = dropWhile is_digit r"
    using M by (simp add: dropWhile_append2 list_all_iff)
  show ?thesis
    unfolding dice_term_def Let_def a b c e f using N(1) M(1) d
    by (simp add: g h i)
qed



subsection \<open>Digits and numbers\<close>

text \<open>\<open>Number\<close> reads back what \<open>String\<close> writes for a natural number.\<close>

lemma digit_value:
  assumes "n < 10"
  shows "int (unat (word_of_nat (48 + n) :: 16 word)) - 48 = int n"
proof -
  have "unat (word_of_nat (48 + n) :: 16 word) = (48 + n) mod 2 ^ LENGTH(16)"
    by (rule unat_of_nat)
  also have "\<dots> = 48 + n" using assms by simp
  finally show ?thesis by (simp only: of_nat_add)
qed

lemma Number_of_digits_single: "Number_of_digits [c] = int (unat c) - 48"
  by (simp add: Number_of_digits_def)

lemma Number_of_digits_snoc:
  "Number_of_digits (ds @ [c]) = 10 * Number_of_digits ds + (int (unat c) - 48)"
  by (simp add: Number_of_digits_def)

lemma Number_of_digits_of_nat: "Number_of_digits (digits_of_nat n) = int n"
proof (induction n rule: digits_of_nat.induct)
  case (1 n)
  show ?case
  proof (cases "n < 10")
    case True
    then have "digits_of_nat n = [word_of_nat (48 + n)]"
      by (subst digits_of_nat.simps) (simp del: of_nat_add)
    with True show ?thesis
      by (simp only: Number_of_digits_single digit_value)
  next
    case False
    with 1 have ih: "Number_of_digits (digits_of_nat (n div 10)) = int (n div 10)" by simp
    have m: "n mod 10 < 10" by simp
    from False have "digits_of_nat n = digits_of_nat (n div 10) @ [word_of_nat (48 + n mod 10)]"
      by (subst digits_of_nat.simps) (simp del: of_nat_add)
    then have "Number_of_digits (digits_of_nat n) = 10 * int (n div 10) + int (n mod 10)"
      by (simp only: Number_of_digits_snoc ih digit_value [OF m])
    also have "\<dots> = int n" by (simp add: zmod_int zdiv_int)
    finally show ?thesis .
  qed
qed

subsection \<open>The rewrite\<close>

lemmas eval_defs = scaleDiceFormula_def match_dice_def dice_term_def js_def is_space_def
  is_digit_def is_d_def is_line_terminator_def Number_of_digits_def String_of_int_def
  digits_of_nat.simps

text \<open>
  C1 (as amended). Let the formula consist of optional white space \<open>l\<close>, a dice count
  \<open>N\<close>, the letter \<open>d\<close> or \<open>D\<close> with optional white space \<open>w1\<close>, \<open>w2\<close> around it, a
  die size \<open>M\<close>, and a remainder \<open>r\<close> without line terminator. For a nonzero integer
  offset \<open>a\<close>, with \<open>N\<close>, \<open>a\<close> and \<open>N + a\<close> safe integers, \<open>scaleDiceFormula\<close> returns
  \<open>l\<close>, the decimal numeral of \<open>N + a\<close>, a lower-case \<open>d\<close>, \<open>M\<close> and \<open>r\<close>: the count is
  rewritten, the white space around the letter is dropped and the letter is put in
  lower case, and the leading white space, the die size and the remainder are
  unchanged.
\<close>

theorem scaleDiceFormula_leading_dice:
  assumes "formula = l @ N @ w1 @ d # w2 @ M @ r"
    and "list_all is_space l" and "N \<noteq> []" and "list_all is_digit N"
    and "list_all is_space w1" and "is_d d" and "list_all is_space w2"
    and "M \<noteq> []" and "list_all is_digit M"
    and "\<not> list_ex is_line_terminator r"
    and "a \<noteq> 0"
    and "safe_integer (Number_of_digits N)" and "safe_integer a"
    and "safe_integer (Number_of_digits N + a)"
  shows "scaleDiceFormula formula (Num a) =
           l @ String_of_int (Number_of_digits N + a) @ js ''d'' @ M @ r"
proof -
  have t: "dice_term formula = Some (l, N, M @ takeWhile is_digit r, dropWhile is_digit r)"
    unfolding assms(1) using assms(2-9) by (rule dice_term_complete)
  have "set (dropWhile is_digit r) \<subseteq> set r"
    by (auto dest: set_dropWhileD)
  with assms(10) have "\<not> list_ex is_line_terminator (dropWhile is_digit r)"
    by (auto simp: list_ex_iff)
  with t have "match_dice formula = Some (l, N, M @ takeWhile is_digit r, dropWhile is_digit r)"
    by (simp add: match_dice_def)
  with assms(11) show ?thesis
    by (simp add: scaleDiceFormula_def)
qed

theorem scaleDiceFormula_leading_dice_witness:
  "safe_integer (Number_of_digits (js ''1'')) \<and> safe_integer 1 \<and>
   safe_integer (Number_of_digits (js ''1'') + 1) \<and>
   scaleDiceFormula (js '' 1 D 8+2'') (Num 1) = js '' 2d8+2''"
proof -
  have s: "safe_integer (Number_of_digits (js ''1''))" "safe_integer 1"
    "safe_integer (Number_of_digits (js ''1'') + 1)"
    by (simp_all add: safe_integer_def Number_of_digits_def js_def)
  have "scaleDiceFormula (js '' '' @ js ''1'' @ js '' '' @ 0x44 # js '' '' @ js ''8'' @ js ''+2'') (Num 1) =
        js '' '' @ String_of_int (Number_of_digits (js ''1'') + 1) @ js ''d'' @ js ''8'' @ js ''+2''"
    by (rule scaleDiceFormula_leading_dice [OF refl _ _ _ _ _ _ _ _ _ _ s])
      (simp_all add: js_def is_space_def is_digit_def is_d_def is_line_terminator_def)
  then have "scaleDiceFormula (js '' 1 D 8+2'') (Num 1) = js '' 2d8+2''"
    by (simp add: js_def Number_of_digits_def String_of_int_def digits_of_nat.simps)
  with s show ?thesis by simp
qed

text \<open>
  C1 as stated fails in two ways. The term \<open>1 D 8\<close> does not keep its separator, so
  more than the count is rewritten; and when a line feed follows the dice term the
  count is not rewritten at all, the offset is appended instead.
\<close>

theorem scaleDiceFormula_leading_dice_counterexample:
  "scaleDiceFormula (js ''1 D 8+2'') (Num 1) = js ''2d8+2'' \<and>
   scaleDiceFormula (js ''1 D 8+2'') (Num 1) \<noteq> js ''2 D 8+2'' \<and>
   scaleDiceFormula (js ''1d8'' @ [0x0A] @ js ''+2'') (Num 1) = js ''1d8'' @ [0x0A] @ js ''+2 + 1'' \<and>
   scaleDiceFormula (js ''1d8'' @ [0x0A] @ js ''+2'') (Num 1) \<noteq> js ''2d8'' @ [0x0A] @ js ''+2''"
  by (simp add: eval_defs)



text \<open>C3. \<open>scaleDiceFormula("1d8+2", 1)\<close> is exactly \<open>"2d8+2"\<close>.\<close>

theorem scaleDiceFormula_example:
  "scaleDiceFormula (js ''1d8+2'') (Num 1) = js ''2d8+2''"
  by (simp add: eval_defs)

text \<open>
  C8. \<open>scaleDiceFormula(formula, 0)\<close> is the formula, and so is the result for
  \<open>null\<close>, \<open>undefined\<close> and every other falsy increment.
\<close>

theorem scaleDiceFormula_falsy:
  "scaleDiceFormula formula (Num 0) = formula \<and>
   scaleDiceFormula formula Null = formula \<and>
   scaleDiceFormula formula Undefined = formula \<and>
   (\<not> truthy add \<longrightarrow> scaleDiceFormula formula add = formula)"
  by (simp add: scaleDiceFormula_def)

theorem scaleDiceFormula_falsy_witness:
  "\<not> truthy NaN \<and> scaleDiceFormula (js ''1d8+2'') NaN = js ''1d8+2'' \<and>
   scaleDiceFormula (js ''1d8+2'') (Num 0) = js ''1d8+2''"
  using scaleDiceFormula_falsy [of "js ''1d8+2''" NaN] by simp

section \<open>Properties of the roll groups\<close>

subsection \<open>Selecting the parts of a group\<close>

lemma foldl_push:
  "foldl (\<lambda>acc (part, i). if P i then acc @ [part] else acc) acc xs =
     acc @ map fst (filter (\<lambda>p. P (snd p)) xs)"
  by (induction xs arbitrary: acc) (auto split: prod.splits)

lemma zip_positions: "zip ps [0..<length ps] = map (\<lambda>i. (ps ! i, i)) [0..<length ps]"
proof -
  have "zip ps [0..<length ps] = zip (map (\<lambda>i. ps ! i) [0..<length ps]) [0..<length ps]"
    by (simp add: map_nth)
  also have "\<dots> = map (\<lambda>i. (ps ! i, i)) [0..<length ps]"
    by (simp add: zip_map1 zip_same_conv_map)
  finally show ?thesis .
qed

lemma foldl_selected:
  "foldl (\<lambda>acc (part, i). if P i then acc @ [part] else acc) [] (zip ps [0..<length ps]) =
     map (\<lambda>i. ps ! i) (filter P [0..<length ps])"
  by (simp add: foldl_push zip_positions filter_map comp_def)

lemma selected_parts_extra:
  assumes "\<forall>i<length ps. Number v \<noteq> Some (int i)"
  shows "selected_parts Number (raw @ [v]) ps = selected_parts Number raw ps"
proof -
  have "filter (\<lambda>i. \<exists>w \<in> set (raw @ [v]). Number w = Some (int i)) [0..<length ps] =
        filter (\<lambda>i. \<exists>w \<in> set raw. Number w = Some (int i)) [0..<length ps]"
    using assms by (intro filter_cong) auto
  then show ?thesis by (simp add: selected_parts_def)
qed

text \<open>
  C4. \<open>constructParts(item, idx)\<close> returns exactly the entries of the damage parts
  whose array position is the number of some value in the parts list of the group, in
  the order of the array, and returns \<open>false\<close> after an error notification when there
  is no such entry. A listed value whose number is no position of the array adds
  nothing: with or without it the result is the same.
\<close>

theorem constructParts_selection:
  "constructParts Number item idx =
     (let sel = selected_parts Number (group_indices item idx) (or_empty (damage_parts item))
      in if sel = [] then (Parts_false, [Error_notification ''ROLLGROUPS.RollGroupEmpty''])
         else (Parts sel, [])) \<and>
   (\<forall>item' v. damage_parts item' = damage_parts item \<and>
      group_indices item' idx = group_indices item idx @ [v] \<and>
      (\<forall>i<length (or_empty (damage_parts item)). Number v \<noteq> Some (int i)) \<longrightarrow>
      constructParts Number item' idx = constructParts Number item idx)"
proof -
  have sel: "constructParts Number it idx =
     (let sel = selected_parts Number (group_indices it idx) (or_empty (damage_parts it))
      in if sel = [] then (Parts_false, [Error_notification ''ROLLGROUPS.RollGroupEmpty''])
         else (Parts sel, []))" for it :: "'a item"
  proof -
    have "(\<lambda>i. Some (int i) \<in> set (map Number (group_indices it idx))) =
          (\<lambda>i. \<exists>v \<in> set (group_indices it idx). Number v = Some (int i))"
      by (intro ext) (metis (no_types) image_iff list.set_map)
    then show ?thesis
      by (simp add: constructParts_def Let_def foldl_selected selected_parts_def)
  qed
  show ?thesis
  proof (intro conjI allI impI)
    show "constructParts Number item idx =
     (let sel = selected_parts Number (group_indices item idx) (or_empty (damage_parts item))
      in if sel = [] then (Parts_false, [Error_notification ''ROLLGROUPS.RollGroupEmpty''])
         else (Parts sel, []))" by (rule sel)
  next
    fix item' :: "'a item" and v
    assume a: "damage_parts item' = damage_parts item \<and>
      group_indices item' idx = group_indices item idx @ [v] \<and>
      (\<forall>i<length (or_empty (damage_parts item)). Number v \<noteq> Some (int i))"
    then have "selected_parts Number (group_indices item' idx) (or_empty (damage_parts item')) =
               selected_parts Number (group_indices item idx) (or_empty (damage_parts item))"
      by (simp add: selected_parts_extra)
    then show "constructParts Number item' idx = constructParts Number item idx"
      by (simp add: sel)
  qed
qed

theorem constructParts_selection_witness:
  "constructParts Some (example_item [2, 0]) 0 =
     (Parts [(js ''1d8'', js ''slashing''), (js ''2'', [])], []) \<and>
   constructParts Some (example_item [2, 0, 7]) 0 = constructParts Some (example_item [2, 0]) 0 \<and>
   constructParts Some (example_item [2, 0]) 1 =
     (Parts_false, [Error_notification ''ROLLGROUPS.RollGroupEmpty''])"
proof -
  note t = constructParts_selection [of Some "example_item [2, 0]"]
  have g: "group_indices (example_item xs) 0 = xs" "group_indices (example_item xs) 1 = []"
    "or_empty (damage_parts (example_item xs)) =
       [(js ''1d8'', js ''slashing''), (js ''2d6'', js ''fire''), (js ''2'', [])]" for xs
    by (simp_all add: group_indices_def group_at_def config_groups_def example_item_def or_empty_def)
  have a: "constructParts Some (example_item [2, 0]) 0 =
     (Parts [(js ''1d8'', js ''slashing''), (js ''2'', [])], [])"
    using t [of 0, THEN conjunct1] by (simp add: g selected_parts_def upt_rec)
  have b: "constructParts Some (example_item [2, 0, 7]) 0 = constructParts Some (example_item [2, 0]) 0"
    using t [of 0, THEN conjunct2, rule_format, of "example_item [2, 0, 7]" 7]
    by (simp add: g) (simp add: example_item_def)
  have c: "constructParts Some (example_item [2, 0]) 1 =
     (Parts_false, [Error_notification ''ROLLGROUPS.RollGroupEmpty''])"
    using t [of 1, THEN conjunct1] by (simp add: g selected_parts_def)
  from a b c show ?thesis by blast
qed

subsection \<open>Rolling a group\<close>

text \<open>
  C5. On an item whose configuration has no groups, \<open>rollDamageGroup\<close> hands the
  roll to the item's own \<open>rollDamage\<close>, with the critical, event, spellLevel,
  versatile and options it was given (the defaults where they were left out) and
  without a notification. When there are groups and the parts list of the selected
  group is missing or empty, it shows the error notification and returns \<open>null\<close>.
\<close>

theorem rollDamageGroup_best_effort:
  "(or_empty (config_groups this) = [] \<longrightarrow>
      rollDamageGroup Number this c =
        (if has_rollDamage this
         then Roll_of_item
                \<lparr>arg_critical = (case critical c of None \<Rightarrow> False | Some b \<Rightarrow> b),
                 arg_event = event c,
                 arg_spellLevel = spellLevel c,
                 arg_versatile = (case versatile c of None \<Rightarrow> False | Some b \<Rightarrow> b),
                 arg_options = or_empty (options c)\<rparr>
         else Result_undefined, [])) \<and>
   (or_empty (config_groups this) \<noteq> [] \<and>
    group_indices this (case rollgroup c of None \<Rightarrow> 0 | Some n \<Rightarrow> n) = [] \<longrightarrow>
      rollDamageGroup Number this c =
        (Result_null, [Error_notification ''ROLLGROUPS.RollGroupEmpty'']))"
proof -
  have "or_empty (case group_at this rg of None \<Rightarrow> None | Some g \<Rightarrow> parts g) =
        group_indices this rg" for rg
    by (simp add: group_indices_def or_empty_def split: option.splits)
  then show ?thesis
    by (simp add: rollDamageGroup_def roll_args_def Let_def)
qed

theorem rollDamageGroup_best_effort_witness:
  "rollDamageGroup Some plain_item (all_defaults\<lparr>critical := Some True, spellLevel := Some 3\<rparr>) =
     (Roll_of_item \<lparr>arg_critical = True, arg_event = None, arg_spellLevel = Some 3,
                    arg_versatile = False, arg_options = []\<rparr>, []) \<and>
   rollDamageGroup Some (example_item []) all_defaults =
     (Result_null, [Error_notification ''ROLLGROUPS.RollGroupEmpty'']) \<and>
   rollDamageGroup Some (example_item [0]) (all_defaults\<lparr>rollgroup := Some 1\<rparr>) =
     (Result_null, [Error_notification ''ROLLGROUPS.RollGroupEmpty''])"
proof -
  have a: "or_empty (config_groups plain_item) = []" "has_rollDamage plain_item"
    by (simp_all add: plain_item_def example_item_def config_groups_def or_empty_def)
  have b: "or_empty (config_groups (example_item xs)) \<noteq> []"
    "group_indices (example_item []) 0 = []" "group_indices (example_item xs) 1 = []" for xs
    by (simp_all add: example_item_def config_groups_def or_empty_def group_indices_def
        group_at_def)
  let ?c = "all_defaults\<lparr>critical := Some True, spellLevel := Some 3\<rparr>"
  have "rollDamageGroup Some plain_item ?c =
     (Roll_of_item \<lparr>arg_critical = True, arg_event = None, arg_spellLevel = Some 3,
                    arg_versatile = False, arg_options = []\<rparr>, [])"
    using rollDamageGroup_best_effort [of plain_item Some ?c, THEN conjunct1] a
    by (simp add: all_defaults_def) (simp add: or_empty_def)
  moreover have "rollDamageGroup Some (example_item []) all_defaults =
     (Result_null, [Error_notification ''ROLLGROUPS.RollGroupEmpty''])"
    using rollDamageGroup_best_effort [of "example_item []" Some all_defaults, THEN conjunct2] b
    by (simp add: all_defaults_def)
  moreover have "rollDamageGroup Some (example_item [0]) (all_defaults\<lparr>rollgroup := Some 1\<rparr>) =
     (Result_null, [Error_notification ''ROLLGROUPS.RollGroupEmpty''])"
    using rollDamageGroup_best_effort [of "example_item [0]" Some
        "all_defaults\<lparr>rollgroup := Some 1\<rparr>", THEN conjunct2] b
    by (simp add: all_defaults_def)
  ultimately show ?thesis by blast
qed

subsection \<open>The damage buttons\<close>

lemma foldl_append_each:
  "foldl (\<lambda>acc x. acc @ [f x]) acc xs = acc @ map f xs"
  by (induction xs arbitrary: acc) simp_all

lemma foldl_append_pairs:
  "foldl (\<lambda>acc (g, i). acc @ [f g i]) acc xs = acc @ map (\<lambda>(g, i). f g i) xs"
  by (induction xs arbitrary: acc) (simp_all split: prod.splits)

text \<open>
  C6. \<open>createDamageButtons(item)\<close> returns \<open>null\<close> exactly when the configuration
  has no groups or at most one damage part has a non-empty formula. Otherwise it
  returns buttons, one per configured group, numbered in the order of the groups.
\<close>

theorem createDamageButtons_null:
  "(createDamageButtons index_of CONFIG item = None \<longleftrightarrow>
      or_empty (config_groups item) = [] \<or>
      length (filter (\<lambda>(f, t). f \<noteq> []) (or_empty (damage_parts item))) \<le> 1) \<and>
   (\<forall>bs. createDamageButtons index_of CONFIG item = Some bs \<longrightarrow>
      bs \<noteq> [] \<and> map data_group bs = [0..<length (or_empty (config_groups item))])"
proof -
  have "(data_group \<circ> (\<lambda>(g, i). damage_button_of index_of CONFIG item vp g i)) = snd" for vp
    by (auto simp: fun_eq_iff damage_button_of_def Let_def)
  then have m: "map (data_group \<circ> (\<lambda>(g, i). damage_button_of index_of CONFIG item vp g i))
            (zip gs [0..<length gs]) = [0..<length gs]" for gs :: "'a rollgroup list" and vp
    by simp
  show ?thesis
    by (cases "config_groups item")
      (auto simp: createDamageButtons_def Let_def or_empty_def foldl_append_pairs m)
qed

theorem createDamageButtons_null_witness:
  "createDamageButtons (\<lambda>n. if 0 \<le> n then Some (nat n) else None) example_host plain_item = None \<and>
   createDamageButtons (\<lambda>n. if 0 \<le> n then Some (nat n) else None) example_host
     ((example_item [0])\<lparr>damage_parts := Some [(js ''1d8'', js ''slashing''), ([], js ''fire'')]\<rparr>) = None \<and>
   map data_group (the (createDamageButtons (\<lambda>n. if 0 \<le> n then Some (nat n) else None)
     example_host (example_item [0]))) = [0, 1]"
proof -
  let ?ix = "\<lambda>n::int. if 0 \<le> n then Some (nat n) else None"
  let ?one = "(example_item [0])\<lparr>damage_parts := Some [(js ''1d8'', js ''slashing''), ([], js ''fire'')]\<rparr>"
  have a: "createDamageButtons ?ix example_host plain_item = None"
    using createDamageButtons_null [of ?ix example_host plain_item]
    by (simp add: plain_item_def config_groups_def or_empty_def)
  have b: "createDamageButtons ?ix example_host ?one = None"
    using createDamageButtons_null [of ?ix example_host ?one]
    by (simp add: example_item_def config_groups_def or_empty_def js_def)
  have "createDamageButtons ?ix example_host (example_item [0]) \<noteq> None"
    using createDamageButtons_null [of ?ix example_host "example_item [0]"]
    by (simp add: example_item_def config_groups_def or_empty_def js_def)
  then obtain bs where bs: "createDamageButtons ?ix example_host (example_item [0]) = Some bs"
    by blast
  with createDamageButtons_null [of ?ix example_host "example_item [0]"]
  have "map data_group bs = [0, 1]"
    by (simp add: example_item_def config_groups_def or_empty_def upt_rec)
  with a b bs show ?thesis by simp
qed

subsection \<open>The save buttons\<close>

text \<open>
  What the function returns when it returns buttons: one for each configured ability
  the filter keeps, in the configured order, with the label the table has for it.
\<close>

lemma createSaveButtons_kept:
  assumes "createSaveButtons CONFIG (Some item) = Inr (Some bs)"
  shows "map data_ability bs =
           filter (\<lambda>abi. Some abi \<noteq> save_ability item \<and>
                     key_in abi (map fst (or_empty (case CONFIG of None \<Rightarrow> None | Some c \<Rightarrow> abilities c))))
             (or_empty (case config item of None \<Rightarrow> None | Some c \<Rightarrow> saves c))"
  using assms
  by (auto simp: createSaveButtons_def Let_def foldl_append_each o_def
      split: if_splits option.splits)

text \<open>
  The filter is the one the specification describes as long as no configured ability
  is a name inherited from \<open>Object.prototype\<close>: then every button is for a key of the
  host's table other than the item's own save ability.
\<close>

lemma createSaveButtons_own_keys:
  assumes "createSaveButtons CONFIG (Some item) = Inr (Some bs)"
    and "set (or_empty (case config item of None \<Rightarrow> None | Some c \<Rightarrow> saves c))
           \<inter> set Object_prototype_names = {}"
    and "b \<in> set bs"
  shows "Some (data_ability b) \<noteq> save_ability item \<and>
         data_ability b \<in> fst ` set (or_empty (case CONFIG of None \<Rightarrow> None | Some c \<Rightarrow> abilities c))"
proof -
  from assms(3) have "data_ability b \<in> set (map data_ability bs)"
    by simp
  then have "data_ability b \<in> set (filter (\<lambda>abi. Some abi \<noteq> save_ability item \<and>
                     key_in abi (map fst (or_empty (case CONFIG of None \<Rightarrow> None | Some c \<Rightarrow> abilities c))))
             (or_empty (case config item of None \<Rightarrow> None | Some c \<Rightarrow> saves c)))"
    by (simp only: createSaveButtons_kept [OF assms(1)])
  with assms(2) show ?thesis
    by (auto simp: key_in_def)
qed

text \<open>
  C10 asks that no button is made for a configured ability that is absent from the
  abilities of the host. The filter tests \<open>abi in abilities\<close>, which also holds for
  the names every object inherits. With the extra saves \<open>dex\<close> and \<open>toString\<close>
  configured, \<open>toString\<close> is no key of the host's table and yet gets a button, whose
  label is \<open>undefined\<close>; and when the host has no table at all, the same name passes
  the filter and the loop raises a \<open>TypeError\<close> instead of returning \<open>null\<close>.
\<close>

theorem createSaveButtons_inherited_name:
  "createSaveButtons example_host (Some inherited_item) =
     Inr (Some [\<lparr>data_ability = js ''dex'', data_dc = 15, ability_label = Some (js ''Dexterity'')\<rparr>,
                \<lparr>data_ability = js ''toString'', data_dc = 15, ability_label = None\<rparr>]) \<and>
   js ''toString'' \<notin>
     set (map fst (or_empty (case example_host of None \<Rightarrow> None | Some c \<Rightarrow> abilities c))) \<and>
   createSaveButtons None (Some inherited_item) =
     Inl (TypeError ''Cannot read properties of undefined'')"
  by (simp add: createSaveButtons_def inherited_item_def example_item_def example_host_def
      or_empty_def key_in_def Object_prototype_names_def js_def Let_def image_iff)

text \<open>With abilities of the host only, the buttons are as the specification says.\<close>

lemma createSaveButtons_example:
  "createSaveButtons example_host (Some (example_item [])) =
     Inr (Some [\<lparr>data_ability = js ''dex'', data_dc = 15, ability_label = Some (js ''Dexterity'')\<rparr>,
                \<lparr>data_ability = js ''str'', data_dc = 15, ability_label = Some (js ''Strength'')\<rparr>]) \<and>
   createSaveButtons example_host (Some ((example_item [])\<lparr>hasSave := False\<rparr>)) = Inr None \<and>
   createSaveButtons None (Some (example_item [])) = Inr None \<and>
   createSaveButtons example_host (None :: int item option) = Inr None"
  by (simp add: createSaveButtons_def example_item_def example_host_def
      or_empty_def key_in_def Object_prototype_names_def js_def Let_def image_iff)

section \<open>Scaling the damage of a cantrip\<close>




section \<open>Exceptions in the handler of the chat log\<close>

text \<open>
  C7 asks that every hook handler catches an exception raised while it runs. The
  handler of \<open>renderChatMessage\<close> has no \<open>try\<close> block: given a jQuery collection it
  raises a \<open>TypeError\<close>, which reaches the host.
\<close>

theorem createChatLogListeners_raises:
  "createChatLogListeners (Html_jquery es) =
     Inl (TypeError ''html.querySelectorAll is not a function'')"
  by (simp add: createChatLogListeners_def)

text \<open>On an element the same handler adds its listeners and returns normally.\<close>

lemma createChatLogListeners_element:
  "createChatLogListeners
     (Html_element [[(''data-action'', js ''rollgroup-damage''), (''data-group'', js ''0'')],
                    [(''data-action'', js ''attack'')],
                    [(''data-action'', js ''save''), (''data-dc'', js ''15'')],
                    [(''data-action'', js ''rollgroup-bladecantrip-attack'')],
                    [(''data-action'', js ''rollgroup-damage-versatile'')]]) =
   Inr [(0, RollDamageFromChat), (4, RollDamageFromChat), (3, PickEquippedWeapon), (2, RollSave)]"
  by (simp add: createChatLogListeners_def querySelectorAll_def attr_starts_def attr_is_def
      attr_present_def js_def upt_rec)

end
